theory Spec2Isabelle
  imports
    Complex_Main
    "HOL-Library.AList"
    "HOL-Library.Char_ord"
    "HOL-Library.List_Lexorder"
begin

section \<open>Strings and characters\<close>

text \<open>
  A Python \<open>str\<close> is a sequence of Unicode code points. It is modelled by \<open>string\<close>,
  reading a \<open>char\<close> as the code point of the same number, so the model covers the strings
  whose code points are all below 256 and \<open>length\<close> counts what Python's \<open>len\<close> counts.

  The two source files classify characters in two different ways.
  \<^item> \<open>lead_tracker.py\<close> uses \<open>str.isdigit\<close>, which accepts every character of numeric type
    Digit or Decimal. Below 256 these are \<open>0\<close> to \<open>9\<close> (48 to 57) and the superscripts
    two, three and one (178, 179 and 185).
  \<^item> \<open>send_whatsapp.py\<close> uses the regular expression class \<open>\d\<close>, which on a \<open>str\<close> pattern
    accepts the characters of category Nd. Below 256 these are \<open>0\<close> to \<open>9\<close> only.
\<close>

definition isdigit :: "char \<Rightarrow> bool" where
  "isdigit c \<longleftrightarrow>
     (48 \<le> (of_char c :: nat) \<and> (of_char c :: nat) \<le> 57)
     \<or> (of_char c :: nat) = 178 \<or> (of_char c :: nat) = 179 \<or> (of_char c :: nat) = 185"

definition re_digit :: "char \<Rightarrow> bool" where
  "re_digit c \<longleftrightarrow> 48 \<le> (of_char c :: nat) \<and> (of_char c :: nat) \<le> 57"

text \<open>\<open>startswith\<close> with a one-character prefix.\<close>

definition startswith :: "string \<Rightarrow> char \<Rightarrow> bool" where
  "startswith s c \<longleftrightarrow> (case s of [] \<Rightarrow> False | x # xs \<Rightarrow> x = c)"


section \<open>The contact ledger (\<open>lead_tracker.py\<close>)\<close>

subsection \<open>Records, the persisted file and the outcomes\<close>

text \<open>
  A lead is the dictionary that \<open>add_lead\<close> appends: nine keys, every value a string.
  The field \<open>lead_k\<close> is the value under the key \<open>k\<close>.
\<close>

record lead =
  lead_phone :: string
  lead_phone_normalized :: string
  lead_name :: string
  lead_source :: string
  lead_message_type :: string
  lead_status :: string
  lead_date_added :: string
  lead_date_updated :: string
  lead_notes :: string

text \<open>
  The state of the file at \<open>db_path\<close>, as far as \<open>_load\<close> can tell the cases apart:
  \<^item> \<open>Missing\<close>: \<open>db_path.exists()\<close> is false;
  \<^item> \<open>Unreadable\<close>: \<open>read_text\<close> raises \<open>OSError\<close>;
  \<^item> \<open>Not_utf8\<close>: the bytes are not valid UTF-8, so \<open>read_text(encoding="utf-8")\<close> raises
    \<open>UnicodeDecodeError\<close> (a \<open>ValueError\<close>, not an \<open>OSError\<close>);
  \<^item> \<open>Not_json\<close>: the text is not JSON, so \<open>json.loads\<close> raises \<open>JSONDecodeError\<close>;
  \<^item> \<open>Holds leads\<close>: the text is the JSON encoding of the list \<open>leads\<close> of records.

  Files that hold a JSON document of another shape (a number, \<open>null\<close>, a list of
  non-records) are not part of this model.
\<close>

datatype file_state = Missing | Unreadable | Not_utf8 | Not_json | Holds "lead list"

datatype py_error = UnicodeDecodeError

text \<open>
  Every ledger operation returns a message built by an f-string. An outcome is one
  \<open>return\<close> statement of the source; its arguments are the values interpolated into the
  message, in the order in which they appear there.
  \<^item> \<open>DUPLICATE phone date_added\<close>: "DUPLICATE: \{phone\} already in tracker (added \{date_added\})"
  \<^item> \<open>OK_Added phone name source\<close>: "OK: Added \{phone\} (\{name\}) from \{source\}"
  \<^item> \<open>FOUND phone name status source date_added\<close>: "FOUND: ... | ... | status=... | source=... | added=..."
  \<^item> \<open>NOT_FOUND_safe phone\<close>: "NOT_FOUND: \{phone\} is not in the tracker ..."
  \<^item> \<open>OK_Updated phone status\<close>: "OK: Updated \{phone\} ... status=\{status\}"
  \<^item> \<open>NOT_FOUND phone\<close>: "NOT_FOUND: \{phone\}"
  \<^item> \<open>No_leads_found\<close>: "No leads found."
  \<^item> \<open>Listing n lines\<close>: "Total: \{n\} leads" followed by one line per lead, each
    \<open>(i, phone, name, status, source, date_added)\<close>
  \<^item> \<open>No_leads_yet\<close>: "No leads yet."
  \<^item> \<open>Statistics n by_status by_source\<close>: "Total leads: \{n\}" followed by the two sorted
    breakdowns.
\<close>

datatype outcome =
    DUPLICATE string string
  | OK_Added string string string
  | FOUND string string string string string
  | NOT_FOUND_safe string
  | OK_Updated string string
  | NOT_FOUND string
  | No_leads_found
  | Listing nat "(nat \<times> string \<times> string \<times> string \<times> string \<times> string) list"
  | No_leads_yet
  | Statistics nat "(string \<times> nat) list" "(string \<times> nat) list"

subsection \<open>Loading and saving\<close>

fun load :: "file_state \<Rightarrow> py_error + lead list" where
  "load Missing = Inr []"
| "load Unreadable = Inr []"
| "load Not_utf8 = Inl UnicodeDecodeError"
| "load Not_json = Inr []"
| "load (Holds leads) = Inr leads"

text \<open>
  \<open>_save\<close> creates the directory and rewrites the whole file. The write itself is taken to
  succeed; afterwards the file holds the encoding of the list that was passed.
\<close>

definition save :: "file_state \<Rightarrow> lead list \<Rightarrow> file_state" where
  "save db leads = Holds leads"

subsection \<open>Comparison-key normalization\<close>

definition normalize_phone :: "string \<Rightarrow> string" where
  "normalize_phone phone =
     (if startswith phone (CHR ''+'') then ''+'' @ filter isdigit (drop 1 phone)
      else filter isdigit phone)"

text \<open>
  The specification's wording of the same function, for comparison: "strip every character
  that is not a decimal digit and, if the original input begins with +, preserve a single
  leading + in the output; otherwise emit digits only".
\<close>

definition decimal_digit :: "char \<Rightarrow> bool" where
  "decimal_digit c \<longleftrightarrow> c \<in> set ''0123456789''"

definition spec_comparison_key :: "string \<Rightarrow> string" where
  "spec_comparison_key raw =
     (if startswith raw (CHR ''+'') then ''+'' else []) @ filter decimal_digit raw"

text \<open>The test that the loops of \<open>add_lead\<close>, \<open>check_lead\<close> and \<open>update_lead\<close> apply to each lead.\<close>

definition matches :: "string \<Rightarrow> lead \<Rightarrow> bool" where
  "matches nrm l \<longleftrightarrow> normalize_phone (lead_phone l) = nrm"

subsection \<open>The operations\<close>

text \<open>
  \<open>datetime.now(timezone.utc).isoformat()\<close> reads the clock. \<open>add_lead\<close> evaluates it twice
  while it builds the new dictionary, first for \<open>date_added\<close> and then for \<open>date_updated\<close>;
  \<open>now1\<close> and \<open>now2\<close> are the two readings. \<open>update_lead\<close> reads the clock once.

  A mutating operation returns its result and the state of the file afterwards.
  The loop \<open>for lead in leads: if ...: return\<close> stops at the first lead that matches.
  The local variable \<open>norm\<close> of the source is \<open>nrm\<close> here.
\<close>

definition add_lead ::
  "file_state \<Rightarrow> string \<Rightarrow> string \<Rightarrow> string \<Rightarrow> string \<Rightarrow> string \<Rightarrow> string
     \<Rightarrow> (py_error + outcome) \<times> file_state" where
  "add_lead db phone name source message now1 now2 =
     (case load db of
        Inl e \<Rightarrow> (Inl e, db)
      | Inr leads \<Rightarrow>
          (let nrm = normalize_phone phone in
           case find (matches nrm) leads of
             Some l \<Rightarrow> (Inr (DUPLICATE phone (lead_date_added l)), db)
           | None \<Rightarrow>
               (Inr (OK_Added phone name source),
                save db (leads @
                  [\<lparr>lead_phone = phone, lead_phone_normalized = nrm, lead_name = name,
                    lead_source = source, lead_message_type = message,
                    lead_status = ''contacted'', lead_date_added = now1,
                    lead_date_updated = now2, lead_notes = ''''\<rparr>]))))"

definition check_lead :: "file_state \<Rightarrow> string \<Rightarrow> py_error + outcome" where
  "check_lead db phone =
     (case load db of
        Inl e \<Rightarrow> Inl e
      | Inr leads \<Rightarrow>
          (let nrm = normalize_phone phone in
           case find (matches nrm) leads of
             Some l \<Rightarrow> Inr (FOUND (lead_phone l) (lead_name l) (lead_status l) (lead_source l) (lead_date_added l))
           | None \<Rightarrow> Inr (NOT_FOUND_safe phone)))"

text \<open>
  \<open>update_lead\<close> changes the first matching dictionary in place and saves the list it is
  part of: \<open>List.extract\<close> splits the list at the first match.
\<close>

definition update_lead ::
  "file_state \<Rightarrow> string \<Rightarrow> string \<Rightarrow> string \<Rightarrow> string \<Rightarrow> (py_error + outcome) \<times> file_state" where
  "update_lead db phone status notes now =
     (case load db of
        Inl e \<Rightarrow> (Inl e, db)
      | Inr leads \<Rightarrow>
          (let nrm = normalize_phone phone in
           case List.extract (matches nrm) leads of
             Some (before, l, after) \<Rightarrow>
               (let l1 = (if status \<noteq> [] then l\<lparr>lead_status := status\<rparr> else l);
                    l2 = (if notes \<noteq> [] then l1\<lparr>lead_notes := notes\<rparr> else l1);
                    l3 = l2\<lparr>lead_date_updated := now\<rparr>
                in (Inr (OK_Updated phone (lead_status l3)), save db (before @ l3 # after)))
           | None \<Rightarrow> (Inr (NOT_FOUND phone), db)))"

definition list_leads :: "file_state \<Rightarrow> string \<Rightarrow> py_error + outcome" where
  "list_leads db status =
     (case load db of
        Inl e \<Rightarrow> Inl e
      | Inr loaded \<Rightarrow>
          (let leads = (if status \<noteq> [] then filter (\<lambda>l. lead_status l = status) loaded else loaded) in
           if leads = [] then Inr No_leads_found
           else Inr (Listing (length leads)
                  (map (\<lambda>(i, l). (i, lead_phone l, lead_name l, lead_status l, lead_source l, lead_date_added l))
                       (List.enumerate 1 leads)))))"

text \<open>\<open>d[k] = d.get(k, 0) + 1\<close> on a dictionary kept as an association list.\<close>

definition bump :: "string \<Rightarrow> (string \<times> nat) list \<Rightarrow> (string \<times> nat) list" where
  "bump k d = AList.update k ((case map_of d k of None \<Rightarrow> 0 | Some v \<Rightarrow> v) + 1) d"

definition stats :: "file_state \<Rightarrow> py_error + outcome" where
  "stats db =
     (case load db of
        Inl e \<Rightarrow> Inl e
      | Inr leads \<Rightarrow>
          if leads = [] then Inr No_leads_yet
          else
            (let (by_status, by_source) =
                   fold (\<lambda>l (bs, bo). (bump (lead_status l) bs, bump (lead_source l) bo)) leads ([], [])
             in Inr (Statistics (length leads) (sort_key fst by_status) (sort_key fst by_source))))"

subsection \<open>The self-test\<close>

text \<open>
  The lead that the self-test of the source (\<open>run_tests\<close>) adds first, for the two clock
  readings \<open>now1\<close> and \<open>now2\<close>.
\<close>

definition self_test_lead :: "string \<Rightarrow> string \<Rightarrow> lead" where
  "self_test_lead now1 now2 =
     \<lparr>lead_phone = ''+1234567890'', lead_phone_normalized = ''+1234567890'',
      lead_name = ''Test Biz'', lead_source = ''reddit'', lead_message_type = ''intro'',
      lead_status = ''contacted'', lead_date_added = now1, lead_date_updated = now2,
      lead_notes = ''''\<rparr>"

section \<open>The dispatch client (\<open>send_whatsapp.py\<close>)\<close>

subsection \<open>JSON values, the bridge and the outcomes\<close>

text \<open>
  What \<open>json.loads\<close> returns and \<open>json.dumps\<close> takes. A JSON object is a Python dictionary,
  kept as an association list that is read with \<open>map_of\<close>. Nothing in the source looks into
  a floating-point number, so its type is left uninterpreted.
\<close>

typedecl py_float

datatype json =
    JNull
  | JBool bool
  | JInt int
  | JFloat py_float
  | JStr string
  | JArr "json list"
  | JObj "(string \<times> json) list"

text \<open>The exceptions that reach the handlers of \<open>execute\<close>.\<close>

datatype exn =
    ConnectionRefusedError
  | TimeoutError
  | JSONDecodeError
  | AttributeError
  | Transport_failure string

text \<open>
  What the world outside does during one call of \<open>execute\<close>:
  \<^item> \<open>websockets_installed\<close>: whether \<open>import websockets\<close> succeeds;
  \<^item> \<open>connect_result\<close>, \<open>send_result\<close>: the exception that \<open>websockets.connect\<close> or
    \<open>ws.send\<close> raises, if any;
  \<^item> \<open>recv_result\<close>: what \<open>ws.recv()\<close> does. \<open>Reply d raw\<close> is a message that arrives \<open>d\<close>
    seconds after the wait began; \<open>raw\<close> is what \<open>json.loads\<close> makes of it, \<open>Not_json_text\<close>
    when it raises \<open>JSONDecodeError\<close>.
\<close>

datatype frame = Not_json_text | Json json

datatype recv_event = No_reply | Reply real frame | Recv_raises exn

record bridge =
  websockets_installed :: bool
  connect_result :: "exn option"
  send_result :: "exn option"
  recv_result :: recv_event

text \<open>The tool object: \<open>self.bridge_url\<close>.\<close>

record SendWhatsAppTool =
  bridge_url :: string

text \<open>
  One constructor for each \<open>return\<close> statement of \<open>execute\<close>, with the values interpolated
  into its message:
  \<^item> \<open>Error_required\<close>: "Error: Both 'phone' and 'message' are required."
  \<^item> \<open>Error_invalid_phone phone\<close>: "Error: Invalid phone number '\{phone\}' ... must be 7-15 digits with country code."
  \<^item> \<open>Error_websockets_required\<close>: "Error: 'websockets' package required. ..."
  \<^item> \<open>OK_sent phone jid\<close>: "OK: Message sent to \{phone\} (\{jid\})"
  \<^item> \<open>Error_from_bridge reason\<close>: "Error from bridge: \{reason\}"
  \<^item> \<open>OK_dispatched phone jid\<close>: "OK: Message dispatched to \{phone\} (\{jid\})"
  \<^item> \<open>Warning_no_confirmation\<close>: "Warning: Message sent but no confirmation received (timeout). Check bridge logs."
  \<^item> \<open>Error_cannot_connect url\<close>: "Error: Cannot connect to WhatsApp bridge at \{url\}. ..."
  \<^item> \<open>Error_sending e\<close>: "Error sending WhatsApp message: \{e\}"
\<close>

datatype dispatch_outcome =
    Error_required
  | Error_invalid_phone string
  | Error_websockets_required
  | OK_sent string string
  | Error_from_bridge json
  | OK_dispatched string string
  | Warning_no_confirmation
  | Error_cannot_connect string
  | Error_sending exn

text \<open>The word that each message starts with.\<close>

datatype tag = OK | Warning | Error

fun message_tag :: "dispatch_outcome \<Rightarrow> tag" where
  "message_tag Error_required = Error"
| "message_tag (Error_invalid_phone phone) = Error"
| "message_tag Error_websockets_required = Error"
| "message_tag (OK_sent phone jid) = OK"
| "message_tag (Error_from_bridge reason) = Error"
| "message_tag (OK_dispatched phone jid) = OK"
| "message_tag Warning_no_confirmation = Warning"
| "message_tag (Error_cannot_connect url) = Error"
| "message_tag (Error_sending e) = Error"

text \<open>What \<open>execute\<close> does to the network, in order.\<close>

datatype io_event = Connect string | Send json

subsection \<open>Address-mode normalization\<close>

definition tool_normalize_phone :: "string \<Rightarrow> string" where
  "tool_normalize_phone phone = filter re_digit phone"

definition phone_to_jid :: "string \<Rightarrow> string" where
  "phone_to_jid phone = (let digits = filter re_digit phone in digits @ ''@s.whatsapp.net'')"

subsection \<open>One dispatch attempt\<close>

text \<open>
  \<open>asyncio.wait_for(ws.recv(), timeout)\<close>: the message if it arrives before the timeout
  elapses, \<open>TimeoutError\<close> otherwise.
\<close>

definition wait_for :: "recv_event \<Rightarrow> real \<Rightarrow> exn + frame" where
  "wait_for ev timeout =
     (case ev of
        No_reply \<Rightarrow> Inl TimeoutError
      | Reply d raw \<Rightarrow> if d < timeout then Inr raw else Inl TimeoutError
      | Recv_raises e \<Rightarrow> Inl e)"

definition json_loads :: "frame \<Rightarrow> exn + json" where
  "json_loads raw = (case raw of Not_json_text \<Rightarrow> Inl JSONDecodeError | Json v \<Rightarrow> Inr v)"

text \<open>\<open>response.get(k)\<close>: only a dictionary has the method.\<close>

fun py_get :: "json \<Rightarrow> string \<Rightarrow> exn + json option" where
  "py_get (JObj kvs) k = Inr (map_of kvs k)"
| "py_get v k = Inl AttributeError"

text \<open>The two outer handlers: \<open>except ConnectionRefusedError\<close>, then \<open>except Exception as e\<close>.\<close>

definition handler :: "SendWhatsAppTool \<Rightarrow> exn \<Rightarrow> dispatch_outcome" where
  "handler self e =
     (if e = ConnectionRefusedError then Error_cannot_connect (bridge_url self)
      else Error_sending e)"

text \<open>The inner \<open>try\<close>: wait for one message and classify it.\<close>

definition await_confirmation ::
  "SendWhatsAppTool \<Rightarrow> bridge \<Rightarrow> string \<Rightarrow> string \<Rightarrow> dispatch_outcome" where
  "await_confirmation self env phone jid =
     (case wait_for (recv_result env) 15 of
        Inl e \<Rightarrow> if e = TimeoutError then Warning_no_confirmation else handler self e
      | Inr raw \<Rightarrow>
          (case json_loads raw of
             Inl e \<Rightarrow> handler self e
           | Inr response \<Rightarrow>
               (case py_get response ''type'' of
                  Inl e \<Rightarrow> handler self e
                | Inr t \<Rightarrow>
                    if t = Some (JStr ''sent'') then OK_sent phone jid
                    else if t = Some (JStr ''error'') then
                      (case py_get response ''error'' of
                         Inl e \<Rightarrow> handler self e
                       | Inr r \<Rightarrow>
                           Error_from_bridge (case r of None \<Rightarrow> JStr ''unknown'' | Some v \<Rightarrow> v))
                    else OK_dispatched phone jid)))"

definition execute ::
  "SendWhatsAppTool \<Rightarrow> bridge \<Rightarrow> string \<Rightarrow> string \<Rightarrow> dispatch_outcome \<times> io_event list" where
  "execute self env phone message =
     (if phone = [] \<or> message = [] then (Error_required, [])
      else
        (let digits = tool_normalize_phone phone in
         if length digits < 7 \<or> length digits > 15 then (Error_invalid_phone phone, [])
         else
           (let jid = phone_to_jid phone in
            if \<not> websockets_installed env then (Error_websockets_required, [])
            else
              (case connect_result env of
                 Some e \<Rightarrow> (handler self e, [Connect (bridge_url self)])
               | None \<Rightarrow>
                   (let payload = JObj [(''type'', JStr ''send''), (''to'', JStr jid),
                                        (''text'', JStr message)]
                    in case send_result env of
                         Some e \<Rightarrow>
                           (handler self e, [Connect (bridge_url self), Send payload])
                       | None \<Rightarrow>
                           (await_confirmation self env phone jid,
                            [Connect (bridge_url self), Send payload]))))))"

text \<open>The requests handed to \<open>ws.send\<close> during an attempt.\<close>

fun transmitted :: "io_event list \<Rightarrow> json list" where
  "transmitted [] = []"
| "transmitted (Connect url # evs) = transmitted evs"
| "transmitted (Send payload # evs) = payload # transmitted evs"

text \<open>
  A request that passes both checks at the head of \<open>execute\<close>, in the words of the
  specification: neither argument is empty and the phone has 7 to 15 decimal digits.
\<close>

definition valid_request :: "string \<Rightarrow> string \<Rightarrow> bool" where
  "valid_request phone message \<longleftrightarrow>
     phone \<noteq> [] \<and> message \<noteq> []
     \<and> 7 \<le> length (filter decimal_digit phone) \<and> length (filter decimal_digit phone) \<le> 15"

subsection \<open>The result states of the specification\<close>

text \<open>
  The specification names the results of a dispatch attempt \<open>Confirmed\<close>,
  \<open>Unconfirmed-Timeout\<close>, \<open>BridgeError\<close> and \<open>ConnectFailed\<close>, next to the validation
  error and the missing transport. \<open>spec_result\<close> places each message of \<open>execute\<close> in
  the state that the specification describes for it.
\<close>

datatype dispatch_state =
    ValidationError
  | TransportUnavailable
  | Confirmed
  | Unconfirmed_Timeout
  | BridgeError
  | ConnectFailed

fun spec_result :: "dispatch_outcome \<Rightarrow> dispatch_state" where
  "spec_result Error_required = ValidationError"
| "spec_result (Error_invalid_phone phone) = ValidationError"
| "spec_result Error_websockets_required = TransportUnavailable"
| "spec_result (OK_sent phone jid) = Confirmed"
| "spec_result (Error_from_bridge reason) = BridgeError"
| "spec_result (OK_dispatched phone jid) = Confirmed"
| "spec_result Warning_no_confirmation = Unconfirmed_Timeout"
| "spec_result (Error_cannot_connect url) = ConnectFailed"
| "spec_result (Error_sending e) = ConnectFailed"

section \<open>Properties of the contact ledger\<close>

subsection \<open>The first matching lead\<close>

lemmas ledger_eval =
  add_lead_def check_lead_def update_lead_def list_leads_def stats_def save_def
  normalize_phone_def startswith_def isdigit_def matches_def self_test_lead_def Let_def
  extract_Nil_code extract_Cons_code

lemma first_match_split:
  assumes "l \<in> set leads" and "matches k l"
  shows "\<exists>ys l' zs. leads = ys @ l' # zs \<and> (\<forall>y\<in>set ys. \<not> matches k y) \<and> matches k l'"
  using assms by (metis split_list_first_prop)

lemma find_first_match:
  assumes "leads = ys @ l # zs" and "\<forall>y\<in>set ys. \<not> matches k y" and "matches k l"
  shows "find (matches k) leads = Some l"
  using assms by (induction ys arbitrary: leads) auto

lemma extract_first_match:
  assumes "leads = ys @ l # zs" and "\<forall>y\<in>set ys. \<not> matches k y" and "matches k l"
  shows "List.extract (matches k) leads = Some (ys, l, zs)"
  using assms by (auto simp: extract_Some_iff)

lemma find_no_match:
  "(\<forall>l\<in>set leads. \<not> matches k l) \<Longrightarrow> find (matches k) leads = None"
  by (simp add: find_None_iff)

lemma extract_no_match:
  "(\<forall>l\<in>set leads. \<not> matches k l) \<Longrightarrow> List.extract (matches k) leads = None"
  by (simp add: extract_None_iff)

text \<open>Each operation, at a list with a first match and at a list with none.\<close>

lemma add_lead_first_match:
  assumes "load db = Inr leads" and "leads = ys @ l # zs"
    and "\<forall>y\<in>set ys. \<not> matches (normalize_phone phone) y"
    and "matches (normalize_phone phone) l"
  shows "add_lead db phone name source message now1 now2
           = (Inr (DUPLICATE phone (lead_date_added l)), db)"
  using assms(1) find_first_match[OF assms(2-4)] by (simp add: add_lead_def)

lemma add_lead_no_match:
  assumes "load db = Inr leads" and "\<forall>l\<in>set leads. \<not> matches (normalize_phone phone) l"
  shows "add_lead db phone name source message now1 now2 =
    (Inr (OK_Added phone name source),
     Holds (leads @ [\<lparr>lead_phone = phone, lead_phone_normalized = normalize_phone phone,
        lead_name = name, lead_source = source, lead_message_type = message,
        lead_status = ''contacted'', lead_date_added = now1, lead_date_updated = now2,
        lead_notes = ''''\<rparr>]))"
  using assms(1) find_no_match[OF assms(2)] by (simp add: add_lead_def save_def)

lemma check_lead_first_match:
  assumes "load db = Inr leads" and "leads = ys @ l # zs"
    and "\<forall>y\<in>set ys. \<not> matches (normalize_phone phone) y"
    and "matches (normalize_phone phone) l"
  shows "check_lead db phone
           = Inr (FOUND (lead_phone l) (lead_name l) (lead_status l) (lead_source l)
                    (lead_date_added l))"
  using assms(1) find_first_match[OF assms(2-4)] by (simp add: check_lead_def)

lemma check_lead_no_match:
  assumes "load db = Inr leads" and "\<forall>l\<in>set leads. \<not> matches (normalize_phone phone) l"
  shows "check_lead db phone = Inr (NOT_FOUND_safe phone)"
  using assms(1) find_no_match[OF assms(2)] by (simp add: check_lead_def)

lemma update_lead_first_match:
  assumes "load db = Inr leads" and "leads = ys @ l # zs"
    and "\<forall>y\<in>set ys. \<not> matches (normalize_phone phone) y"
    and "matches (normalize_phone phone) l"
  shows "update_lead db phone status notes now =
     (Inr (OK_Updated phone (if status = [] then lead_status l else status)),
      Holds (ys @ l\<lparr>lead_status := (if status = [] then lead_status l else status),
                      lead_notes := (if notes = [] then lead_notes l else notes),
                      lead_date_updated := now\<rparr> # zs))"
  using assms(1) extract_first_match[OF assms(2-4)]
  by (simp add: update_lead_def save_def Let_def)

lemma update_lead_no_match:
  assumes "load db = Inr leads" and "\<forall>l\<in>set leads. \<not> matches (normalize_phone phone) l"
  shows "update_lead db phone status notes now = (Inr (NOT_FOUND phone), db)"
  using assms(1) extract_no_match[OF assms(2)] by (simp add: update_lead_def)

subsection \<open>Duplicate rejection\<close>

text \<open>
  Claim C1. Let the file load as \<open>leads\<close>, and let the phone that is passed to \<open>add_lead\<close>
  normalize to the same comparison key as the phone of some stored lead. Then \<open>add_lead\<close>
  returns the \<open>DUPLICATE\<close> message with the \<open>date_added\<close> of the first such lead, and the
  file is what it was. In particular, after an \<open>add_lead\<close> that succeeded with clock reading
  \<open>t_add\<close>, an \<open>add_lead\<close> of any phone with the same comparison key is rejected with
  \<open>date_added = t_add\<close> and changes nothing.
\<close>

theorem add_lead_rejects_duplicate:
  "(load db = Inr leads \<and> l \<in> set leads
      \<and> normalize_phone (lead_phone l) = normalize_phone phone
    \<longrightarrow> (\<exists>ys l' zs. leads = ys @ l' # zs
            \<and> (\<forall>y\<in>set ys. normalize_phone (lead_phone y) \<noteq> normalize_phone phone)
            \<and> normalize_phone (lead_phone l') = normalize_phone phone
            \<and> add_lead db phone name source message now1 now2
                = (Inr (DUPLICATE phone (lead_date_added l')), db)))
   \<and> (add_lead db_a phone_a name_a source_a message_a t_add t_upd
          = (Inr (OK_Added phone_a name_a source_a), db_b)
        \<and> normalize_phone phone = normalize_phone phone_a
    \<longrightarrow> add_lead db_b phone name source message now1 now2 = (Inr (DUPLICATE phone t_add), db_b))"
proof (intro conjI impI)
  assume h: "load db = Inr leads \<and> l \<in> set leads
      \<and> normalize_phone (lead_phone l) = normalize_phone phone"
  then have "matches (normalize_phone phone) l" by (simp add: matches_def)
  with h obtain ys l' zs where s: "leads = ys @ l' # zs"
      "\<forall>y\<in>set ys. \<not> matches (normalize_phone phone) y" "matches (normalize_phone phone) l'"
    using first_match_split by blast
  from h have "load db = Inr leads" by simp
  from add_lead_first_match[OF this s] s
  show "\<exists>ys l' zs. leads = ys @ l' # zs
            \<and> (\<forall>y\<in>set ys. normalize_phone (lead_phone y) \<noteq> normalize_phone phone)
            \<and> normalize_phone (lead_phone l') = normalize_phone phone
            \<and> add_lead db phone name source message now1 now2
                = (Inr (DUPLICATE phone (lead_date_added l')), db)"
    unfolding matches_def by blast
next
  assume h: "add_lead db_a phone_a name_a source_a message_a t_add t_upd
          = (Inr (OK_Added phone_a name_a source_a), db_b)
        \<and> normalize_phone phone = normalize_phone phone_a"
  obtain leads_a where ld: "load db_a = Inr leads_a"
    using h by (cases "load db_a") (auto simp: add_lead_def)
  let ?new = "\<lparr>lead_phone = phone_a, lead_phone_normalized = normalize_phone phone_a,
        lead_name = name_a, lead_source = source_a, lead_message_type = message_a,
        lead_status = ''contacted'', lead_date_added = t_add, lead_date_updated = t_upd,
        lead_notes = ''''\<rparr>"
  have nm: "\<forall>l\<in>set leads_a. \<not> matches (normalize_phone phone_a) l"
  proof (cases "find (matches (normalize_phone phone_a)) leads_a")
    case None
    then show ?thesis by (simp add: find_None_iff)
  next
    case (Some a)
    with h ld show ?thesis by (simp add: add_lead_def)
  qed
  from add_lead_no_match[OF ld nm] h have db_b: "db_b = Holds (leads_a @ [?new])" by simp
  have "add_lead db_b phone name source message now1 now2
          = (Inr (DUPLICATE phone (lead_date_added ?new)), db_b)"
  proof (rule add_lead_first_match)
    show "load db_b = Inr (leads_a @ [?new])" by (simp add: db_b)
    show "leads_a @ [?new] = leads_a @ ?new # []" by simp
    show "\<forall>y\<in>set leads_a. \<not> matches (normalize_phone phone) y" using nm h by simp
    show "matches (normalize_phone phone) ?new" using h by (simp add: matches_def)
  qed
  then show "add_lead db_b phone name source message now1 now2 = (Inr (DUPLICATE phone t_add), db_b)"
    by simp
qed

text \<open>
  The self-test's lead is stored; a second \<open>add_lead\<close> writes the same number with spaces
  and a dash.
\<close>

theorem add_lead_rejects_duplicate_witness:
  "load (Holds [self_test_lead ''2024-05-01T12:00:00.000001+00:00''
                               ''2024-05-01T12:00:00.000002+00:00''])
     = Inr [self_test_lead ''2024-05-01T12:00:00.000001+00:00''
                           ''2024-05-01T12:00:00.000002+00:00'']
   \<and> normalize_phone (lead_phone (self_test_lead ''2024-05-01T12:00:00.000001+00:00''
                                                  ''2024-05-01T12:00:00.000002+00:00''))
       = normalize_phone ''+1 234-567-890''
   \<and> add_lead Missing ''+1234567890'' ''Test Biz'' ''reddit'' ''intro''
        ''2024-05-01T12:00:00.000001+00:00'' ''2024-05-01T12:00:00.000002+00:00''
       = (Inr (OK_Added ''+1234567890'' ''Test Biz'' ''reddit''),
          Holds [self_test_lead ''2024-05-01T12:00:00.000001+00:00''
                                ''2024-05-01T12:00:00.000002+00:00''])
   \<and> add_lead (Holds [self_test_lead ''2024-05-01T12:00:00.000001+00:00''
                                      ''2024-05-01T12:00:00.000002+00:00''])
        ''+1 234-567-890'' ''Test Biz'' ''reddit'' ''intro''
        ''2024-05-02T09:30:00+00:00'' ''2024-05-02T09:30:00.000004+00:00''
       = (Inr (DUPLICATE ''+1 234-567-890'' ''2024-05-01T12:00:00.000001+00:00''),
          Holds [self_test_lead ''2024-05-01T12:00:00.000001+00:00''
                                ''2024-05-01T12:00:00.000002+00:00''])"
  using add_lead_rejects_duplicate
    [where db = "Holds [self_test_lead ''2024-05-01T12:00:00.000001+00:00''
                                       ''2024-05-01T12:00:00.000002+00:00'']"
       and leads = "[self_test_lead ''2024-05-01T12:00:00.000001+00:00''
                                    ''2024-05-01T12:00:00.000002+00:00'']"
       and l = "self_test_lead ''2024-05-01T12:00:00.000001+00:00''
                               ''2024-05-01T12:00:00.000002+00:00''"
       and phone = "''+1 234-567-890''" and name = "''Test Biz''" and source = "''reddit''"
       and message = "''intro''" and ?now1.0 = "''2024-05-02T09:30:00+00:00''"
       and ?now2.0 = "''2024-05-02T09:30:00.000004+00:00''"
       and db_a = Missing and phone_a = "''+1234567890''" and name_a = "''Test Biz''"
       and source_a = "''reddit''" and message_a = "''intro''"
       and t_add = "''2024-05-01T12:00:00.000001+00:00''"
       and t_upd = "''2024-05-01T12:00:00.000002+00:00''"
       and db_b = "Holds [self_test_lead ''2024-05-01T12:00:00.000001+00:00''
                                           ''2024-05-01T12:00:00.000002+00:00'']"]
  by (simp add: ledger_eval)

subsection \<open>Comparison-key normalization\<close>

lemma decimal_digit_code_point:
  "decimal_digit c \<longleftrightarrow> 48 \<le> (of_char c :: nat) \<and> (of_char c :: nat) \<le> 57"
proof
  assume "decimal_digit c"
  then show "48 \<le> (of_char c :: nat) \<and> (of_char c :: nat) \<le> 57"
    by (auto simp: decimal_digit_def)
next
  assume h: "48 \<le> (of_char c :: nat) \<and> (of_char c :: nat) \<le> 57"
  then have "(of_char c :: nat) \<in> of_char ` set ''0123456789''"
    by simp arith
  then show "decimal_digit c"
    unfolding decimal_digit_def by (simp only: inj_image_mem_iff[OF inj_of_char])
qed

lemma re_digit_decimal: "re_digit c \<longleftrightarrow> decimal_digit c"
  by (simp add: re_digit_def decimal_digit_code_point)

lemma decimal_isdigit: "decimal_digit c \<Longrightarrow> isdigit c"
  by (simp add: isdigit_def decimal_digit_code_point)

lemma plus_not_isdigit: "\<not> isdigit (CHR ''+'')"
  by (simp add: isdigit_def)

lemma normalize_phone_filter:
  "normalize_phone raw = (if startswith raw (CHR ''+'') then ''+'' else []) @ filter isdigit raw"
  by (cases raw) (auto simp: normalize_phone_def startswith_def plus_not_isdigit)

lemma check_lead_found_iff:
  assumes "load db = Inr leads"
  shows "(\<exists>a b c d e. check_lead db q = Inr (FOUND a b c d e))
         \<longleftrightarrow> (\<exists>l\<in>set leads. normalize_phone (lead_phone l) = normalize_phone q)"
proof (cases "\<exists>l\<in>set leads. matches (normalize_phone q) l")
  case True
  then obtain ys l zs where "leads = ys @ l # zs"
      "\<forall>y\<in>set ys. \<not> matches (normalize_phone q) y" "matches (normalize_phone q) l"
    using first_match_split by blast
  from check_lead_first_match[OF assms this] True show ?thesis
    by (auto simp: matches_def)
next
  case False
  then have "\<forall>l\<in>set leads. \<not> matches (normalize_phone q) l" by blast
  from check_lead_no_match[OF assms this] False show ?thesis
    by (auto simp: matches_def)
qed

lemma add_lead_duplicate_iff:
  assumes "load db = Inr leads"
  shows "(\<exists>d. fst (add_lead db q name source message now1 now2) = Inr (DUPLICATE q d))
         \<longleftrightarrow> (\<exists>l\<in>set leads. normalize_phone (lead_phone l) = normalize_phone q)"
proof (cases "\<exists>l\<in>set leads. matches (normalize_phone q) l")
  case True
  then obtain ys l zs where "leads = ys @ l # zs"
      "\<forall>y\<in>set ys. \<not> matches (normalize_phone q) y" "matches (normalize_phone q) l"
    using first_match_split by blast
  from add_lead_first_match[OF assms this] True show ?thesis
    by (auto simp: matches_def)
next
  case False
  then have "\<forall>l\<in>set leads. \<not> matches (normalize_phone q) l" by blast
  from add_lead_no_match[OF assms this] False show ?thesis
    by (auto simp: matches_def)
qed

lemma update_lead_updated_iff:
  assumes "load db = Inr leads"
  shows "(\<exists>s. fst (update_lead db q status notes now) = Inr (OK_Updated q s))
         \<longleftrightarrow> (\<exists>l\<in>set leads. normalize_phone (lead_phone l) = normalize_phone q)"
proof (cases "\<exists>l\<in>set leads. matches (normalize_phone q) l")
  case True
  then obtain ys l zs where "leads = ys @ l # zs"
      "\<forall>y\<in>set ys. \<not> matches (normalize_phone q) y" "matches (normalize_phone q) l"
    using first_match_split by blast
  from update_lead_first_match[OF assms this] True show ?thesis
    by (auto simp: matches_def)
next
  case False
  then have "\<forall>l\<in>set leads. \<not> matches (normalize_phone q) l" by blast
  from update_lead_no_match[OF assms this] False show ?thesis
    by (auto simp: matches_def)
qed

text \<open>
  Claim C2, as amended. For every input, \<open>normalize_phone\<close> returns the characters of the
  input that \<open>str.isdigit\<close> accepts, in order, after a single \<open>+\<close> if and only if the input
  begins with \<open>+\<close>. These characters are the decimal digits and, beyond them, the
  superscript digits; on an input without such characters the result is what the
  specification describes, the decimal digits after the optional \<open>+\<close>. A phone is treated as
  the contact of a stored lead by \<open>check_lead\<close>, \<open>add_lead\<close> and \<open>update_lead\<close> if and only if
  the two normalized forms are the same string.
\<close>

theorem normalize_phone_keeps_isdigit:
  "normalize_phone raw
     = (if startswith raw (CHR ''+'') then ''+'' else []) @ filter isdigit raw
   \<and> ((\<forall>c\<in>set raw. isdigit c \<longrightarrow> decimal_digit c)
        \<longrightarrow> normalize_phone raw = spec_comparison_key raw)
   \<and> (load db = Inr leads \<longrightarrow>
        ((\<exists>a b c d e. check_lead db raw = Inr (FOUND a b c d e))
           \<longleftrightarrow> (\<exists>l\<in>set leads. normalize_phone (lead_phone l) = normalize_phone raw))
      \<and> ((\<exists>d. fst (add_lead db raw name source message now1 now2) = Inr (DUPLICATE raw d))
           \<longleftrightarrow> (\<exists>l\<in>set leads. normalize_phone (lead_phone l) = normalize_phone raw))
      \<and> ((\<exists>s. fst (update_lead db raw status notes now) = Inr (OK_Updated raw s))
           \<longleftrightarrow> (\<exists>l\<in>set leads. normalize_phone (lead_phone l) = normalize_phone raw)))"
proof (intro conjI impI)
  show "normalize_phone raw
     = (if startswith raw (CHR ''+'') then ''+'' else []) @ filter isdigit raw"
    by (rule normalize_phone_filter)
next
  assume "\<forall>c\<in>set raw. isdigit c \<longrightarrow> decimal_digit c"
  then have "filter isdigit raw = filter decimal_digit raw"
    by (intro filter_cong) (auto dest: decimal_isdigit)
  then show "normalize_phone raw = spec_comparison_key raw"
    by (simp add: normalize_phone_filter spec_comparison_key_def)
next
  assume "load db = Inr leads"
  then show "(\<exists>a b c d e. check_lead db raw = Inr (FOUND a b c d e))
           \<longleftrightarrow> (\<exists>l\<in>set leads. normalize_phone (lead_phone l) = normalize_phone raw)"
    by (rule check_lead_found_iff)
next
  assume "load db = Inr leads"
  then show "(\<exists>d. fst (add_lead db raw name source message now1 now2) = Inr (DUPLICATE raw d))
           \<longleftrightarrow> (\<exists>l\<in>set leads. normalize_phone (lead_phone l) = normalize_phone raw)"
    by (rule add_lead_duplicate_iff)
next
  assume "load db = Inr leads"
  then show "(\<exists>s. fst (update_lead db raw status notes now) = Inr (OK_Updated raw s))
           \<longleftrightarrow> (\<exists>l\<in>set leads. normalize_phone (lead_phone l) = normalize_phone raw)"
    by (rule update_lead_updated_iff)
qed

text \<open>The formatted number of the specification, looked up in a file with the self-test's lead.\<close>

theorem normalize_phone_keeps_isdigit_witness:
  "filter isdigit ''+1 234-567-890'' = filter decimal_digit ''+1 234-567-890''
   \<and> normalize_phone ''+1 234-567-890'' = ''+1234567890''
   \<and> spec_comparison_key ''+1 234-567-890'' = ''+1234567890''
   \<and> load (Holds [self_test_lead ''2024-05-01T12:00:00.000001+00:00''
                                  ''2024-05-01T12:00:00.000002+00:00''])
       = Inr [self_test_lead ''2024-05-01T12:00:00.000001+00:00''
                             ''2024-05-01T12:00:00.000002+00:00'']
   \<and> check_lead (Holds [self_test_lead ''2024-05-01T12:00:00.000001+00:00''
                                        ''2024-05-01T12:00:00.000002+00:00''])
        ''+1 234-567-890''
       = Inr (FOUND ''+1234567890'' ''Test Biz'' ''contacted'' ''reddit''
                ''2024-05-01T12:00:00.000001+00:00'')"
  using normalize_phone_keeps_isdigit
    [where raw = "''+1 234-567-890''"
       and db = "Holds [self_test_lead ''2024-05-01T12:00:00.000001+00:00''
                                       ''2024-05-01T12:00:00.000002+00:00'']"
       and leads = "[self_test_lead ''2024-05-01T12:00:00.000001+00:00''
                                    ''2024-05-01T12:00:00.000002+00:00'']"
       and name = "''Test Biz''" and source = "''reddit''" and message = "''intro''"
       and ?now1.0 = "''2024-05-02T09:30:00+00:00''"
       and ?now2.0 = "''2024-05-02T09:30:00.000004+00:00''"
       and status = "''responded''" and ?notes = "''''"
       and now = "''2024-05-02T09:30:00+00:00''"]
  by (simp add: ledger_eval spec_comparison_key_def decimal_digit_def)

text \<open>
  Claim C2, as stated, fails where \<open>str.isdigit\<close> accepts a character that is not a decimal
  digit. The input is the digit one followed by the superscript two (code point 178):
  \<open>normalize_phone\<close> keeps both characters, and the decimal digits of the input are the
  one alone.
\<close>

theorem normalize_phone_keeps_superscript:
  "normalize_phone [CHR ''1'', CHR 0xB2] = [CHR ''1'', CHR 0xB2]
   \<and> filter decimal_digit [CHR ''1'', CHR 0xB2] = ''1''
   \<and> spec_comparison_key [CHR ''1'', CHR 0xB2] = ''1''"
  by (simp add: normalize_phone_def spec_comparison_key_def startswith_def isdigit_def
      decimal_digit_def)

subsection \<open>Missing and malformed files\<close>

text \<open>
  Where \<open>_load\<close> returns the empty list (the file is missing, unreadable or not JSON), every
  operation behaves as on an empty collection, and \<open>add_lead\<close> writes a list of one lead.
\<close>

lemma ledger_empty_when_caught:
  assumes "db = Missing \<or> db = Unreadable \<or> db = Not_json"
  shows "check_lead db phone = Inr (NOT_FOUND_safe phone)"
    and "list_leads db status = Inr No_leads_found"
    and "stats db = Inr No_leads_yet"
    and "add_lead db phone name source message now1 now2 =
           (Inr (OK_Added phone name source),
            Holds [\<lparr>lead_phone = phone, lead_phone_normalized = normalize_phone phone,
              lead_name = name, lead_source = source, lead_message_type = message,
              lead_status = ''contacted'', lead_date_added = now1, lead_date_updated = now2,
              lead_notes = ''''\<rparr>])"
  using assms by (auto simp: check_lead_def list_leads_def stats_def add_lead_def save_def)

text \<open>
  Claim C4 asks that every operation treats a malformed file as an empty collection and
  returns normally. A file whose bytes are not valid UTF-8 is malformed, and there
  \<open>read_text\<close> raises \<open>UnicodeDecodeError\<close>, which the handler of \<open>_load\<close>
  (\<open>except (json.JSONDecodeError, OSError)\<close>) does not catch: all four operations raise,
  and \<open>add_lead\<close> leaves the file as it is.
\<close>

theorem ledger_raises_on_invalid_utf8:
  "check_lead Not_utf8 ''+1234567890'' = Inl UnicodeDecodeError
   \<and> list_leads Not_utf8 '''' = Inl UnicodeDecodeError
   \<and> stats Not_utf8 = Inl UnicodeDecodeError
   \<and> add_lead Not_utf8 ''+1234567890'' ''Test Biz'' ''reddit'' ''intro''
        ''2024-05-01T12:00:00.000001+00:00'' ''2024-05-01T12:00:00.000002+00:00''
       = (Inl UnicodeDecodeError, Not_utf8)"
  by (simp add: check_lead_def list_leads_def stats_def add_lead_def)

subsection \<open>Updating a lead\<close>

text \<open>
  Claim C7. Let the file load as \<open>ys @ l # zs\<close>, where \<open>l\<close> is the first lead whose phone has
  the comparison key of the phone that is passed. Then \<open>update_lead\<close> returns the \<open>OK\<close>
  message with the resulting status and saves \<open>ys @ l' # zs\<close>: the status of \<open>l'\<close> is the
  argument if that is not empty and the old status otherwise, likewise the notes,
  \<open>date_updated\<close> is the clock reading, and \<open>phone\<close>, \<open>phone_normalized\<close>, \<open>name\<close>, \<open>source\<close>,
  \<open>message_type\<close> and \<open>date_added\<close> are those of \<open>l\<close>; the other leads are untouched. When no
  stored lead has the comparison key, \<open>update_lead\<close> returns \<open>NOT_FOUND\<close> and the file is what
  it was.
\<close>

theorem update_lead_partial_update:
  "(load db = Inr leads \<and> leads = ys @ l # zs
      \<and> (\<forall>y\<in>set ys. normalize_phone (lead_phone y) \<noteq> normalize_phone phone)
      \<and> normalize_phone (lead_phone l) = normalize_phone phone
    \<longrightarrow> (\<exists>l'. update_lead db phone status notes now
                  = (Inr (OK_Updated phone (lead_status l')), Holds (ys @ l' # zs))
            \<and> lead_status l' = (if status \<noteq> [] then status else lead_status l)
            \<and> lead_notes l' = (if notes \<noteq> [] then notes else lead_notes l)
            \<and> lead_date_updated l' = now
            \<and> lead_phone l' = lead_phone l
            \<and> lead_phone_normalized l' = lead_phone_normalized l
            \<and> lead_name l' = lead_name l
            \<and> lead_source l' = lead_source l
            \<and> lead_message_type l' = lead_message_type l
            \<and> lead_date_added l' = lead_date_added l))
   \<and> (load db_n = Inr leads_n
      \<and> (\<forall>y\<in>set leads_n. normalize_phone (lead_phone y) \<noteq> normalize_phone phone)
    \<longrightarrow> update_lead db_n phone status notes now = (Inr (NOT_FOUND phone), db_n))"
proof (intro conjI impI)
  assume h: "load db = Inr leads \<and> leads = ys @ l # zs
      \<and> (\<forall>y\<in>set ys. normalize_phone (lead_phone y) \<noteq> normalize_phone phone)
      \<and> normalize_phone (lead_phone l) = normalize_phone phone"
  let ?l' = "l\<lparr>lead_status := (if status = [] then lead_status l else status),
                lead_notes := (if notes = [] then lead_notes l else notes),
                lead_date_updated := now\<rparr>"
  have "update_lead db phone status notes now
          = (Inr (OK_Updated phone (if status = [] then lead_status l else status)),
             Holds (ys @ ?l' # zs))"
    by (rule update_lead_first_match) (use h in \<open>simp_all add: matches_def\<close>)
  then show "\<exists>l'. update_lead db phone status notes now
                  = (Inr (OK_Updated phone (lead_status l')), Holds (ys @ l' # zs))
            \<and> lead_status l' = (if status \<noteq> [] then status else lead_status l)
            \<and> lead_notes l' = (if notes \<noteq> [] then notes else lead_notes l)
            \<and> lead_date_updated l' = now
            \<and> lead_phone l' = lead_phone l
            \<and> lead_phone_normalized l' = lead_phone_normalized l
            \<and> lead_name l' = lead_name l
            \<and> lead_source l' = lead_source l
            \<and> lead_message_type l' = lead_message_type l
            \<and> lead_date_added l' = lead_date_added l"
    by (intro exI[of _ ?l']) simp
next
  assume h: "load db_n = Inr leads_n
      \<and> (\<forall>y\<in>set leads_n. normalize_phone (lead_phone y) \<noteq> normalize_phone phone)"
  show "update_lead db_n phone status notes now = (Inr (NOT_FOUND phone), db_n)"
    by (rule update_lead_no_match[of db_n leads_n]) (use h in \<open>simp_all add: matches_def\<close>)
qed

text \<open>
  The update of the self-test, \<open>update_lead(tmp, "+1234567890", status="responded")\<close>, and the
  same update on a file that does not exist.
\<close>

theorem update_lead_partial_update_witness:
  "load (Holds [self_test_lead ''2024-05-01T12:00:00.000001+00:00''
                               ''2024-05-01T12:00:00.000002+00:00''])
     = Inr ([] @ self_test_lead ''2024-05-01T12:00:00.000001+00:00''
                                ''2024-05-01T12:00:00.000002+00:00'' # [])
   \<and> normalize_phone (lead_phone (self_test_lead ''2024-05-01T12:00:00.000001+00:00''
                                                  ''2024-05-01T12:00:00.000002+00:00''))
       = normalize_phone ''+1234567890''
   \<and> update_lead (Holds [self_test_lead ''2024-05-01T12:00:00.000001+00:00''
                                         ''2024-05-01T12:00:00.000002+00:00''])
        ''+1234567890'' ''responded'' '''' ''2024-05-02T09:30:00+00:00''
       = (Inr (OK_Updated ''+1234567890'' ''responded''),
          Holds [\<lparr>lead_phone = ''+1234567890'', lead_phone_normalized = ''+1234567890'',
                  lead_name = ''Test Biz'', lead_source = ''reddit'',
                  lead_message_type = ''intro'', lead_status = ''responded'',
                  lead_date_added = ''2024-05-01T12:00:00.000001+00:00'',
                  lead_date_updated = ''2024-05-02T09:30:00+00:00'', lead_notes = ''''\<rparr>])
   \<and> load Missing = Inr []
   \<and> update_lead Missing ''+1234567890'' ''responded'' '''' ''2024-05-02T09:30:00+00:00''
       = (Inr (NOT_FOUND ''+1234567890''), Missing)"
  using update_lead_partial_update
    [where db = "Holds [self_test_lead ''2024-05-01T12:00:00.000001+00:00''
                                       ''2024-05-01T12:00:00.000002+00:00'']"
       and leads = "[self_test_lead ''2024-05-01T12:00:00.000001+00:00''
                                    ''2024-05-01T12:00:00.000002+00:00'']"
       and ys = "[]" and zs = "[]"
       and l = "self_test_lead ''2024-05-01T12:00:00.000001+00:00''
                               ''2024-05-01T12:00:00.000002+00:00''"
       and phone = "''+1234567890''" and status = "''responded''" and ?notes = "''''"
       and now = "''2024-05-02T09:30:00+00:00''"
       and db_n = Missing and leads_n = "[]"]
  by (simp add: ledger_eval)

text \<open>
  Claim C10. With both \<open>status\<close> and \<open>notes\<close> empty, \<open>update_lead\<close> on a stored phone still
  returns the \<open>OK\<close> message, with the status the lead already had, and saves the list in
  which the lead differs in \<open>date_updated\<close> alone, which is the clock reading. The file
  therefore changes whenever the reading differs from the stored \<open>date_updated\<close>.
\<close>

theorem update_lead_empty_arguments:
  assumes "load db = Inr leads" and "leads = ys @ l # zs"
    and "\<forall>y\<in>set ys. normalize_phone (lead_phone y) \<noteq> normalize_phone phone"
    and "normalize_phone (lead_phone l) = normalize_phone phone"
  shows "update_lead db phone [] [] now
           = (Inr (OK_Updated phone (lead_status l)),
              Holds (ys @ l\<lparr>lead_date_updated := now\<rparr> # zs))
         \<and> (now \<noteq> lead_date_updated l \<longrightarrow> snd (update_lead db phone [] [] now) \<noteq> db)"
proof -
  have u: "update_lead db phone [] [] now
           = (Inr (OK_Updated phone (lead_status l)),
              Holds (ys @ l\<lparr>lead_date_updated := now\<rparr> # zs))"
    using update_lead_first_match[of db leads ys l zs phone "[]" "[]" now] assms
    by (simp add: matches_def)
  have db: "db = Holds leads" using assms(1,2) by (cases db) auto
  have "now \<noteq> lead_date_updated l \<Longrightarrow> l\<lparr>lead_date_updated := now\<rparr> \<noteq> l"
    by (metis lead.select_convs(8) lead.surjective lead.update_convs(8))
  with u db assms(2) show ?thesis by auto
qed

theorem update_lead_empty_arguments_witness:
  "load (Holds [self_test_lead ''2024-05-01T12:00:00.000001+00:00''
                               ''2024-05-01T12:00:00.000002+00:00''])
     = Inr ([] @ self_test_lead ''2024-05-01T12:00:00.000001+00:00''
                                ''2024-05-01T12:00:00.000002+00:00'' # [])
   \<and> normalize_phone (lead_phone (self_test_lead ''2024-05-01T12:00:00.000001+00:00''
                                                  ''2024-05-01T12:00:00.000002+00:00''))
       = normalize_phone ''+1234567890''
   \<and> ''2024-05-02T09:30:00+00:00''
       \<noteq> lead_date_updated (self_test_lead ''2024-05-01T12:00:00.000001+00:00''
                                            ''2024-05-01T12:00:00.000002+00:00'')
   \<and> update_lead (Holds [self_test_lead ''2024-05-01T12:00:00.000001+00:00''
                                         ''2024-05-01T12:00:00.000002+00:00''])
        ''+1234567890'' '''' '''' ''2024-05-02T09:30:00+00:00''
       = (Inr (OK_Updated ''+1234567890'' ''contacted''),
          Holds [self_test_lead ''2024-05-01T12:00:00.000001+00:00''
                                ''2024-05-02T09:30:00+00:00''])
   \<and> snd (update_lead (Holds [self_test_lead ''2024-05-01T12:00:00.000001+00:00''
                                              ''2024-05-01T12:00:00.000002+00:00''])
              ''+1234567890'' '''' '''' ''2024-05-02T09:30:00+00:00'')
       \<noteq> Holds [self_test_lead ''2024-05-01T12:00:00.000001+00:00''
                               ''2024-05-01T12:00:00.000002+00:00'']"
  using update_lead_empty_arguments
    [where db = "Holds [self_test_lead ''2024-05-01T12:00:00.000001+00:00''
                                       ''2024-05-01T12:00:00.000002+00:00'']"
       and leads = "[self_test_lead ''2024-05-01T12:00:00.000001+00:00''
                                    ''2024-05-01T12:00:00.000002+00:00'']"
       and ys = "[]" and zs = "[]"
       and l = "self_test_lead ''2024-05-01T12:00:00.000001+00:00''
                               ''2024-05-01T12:00:00.000002+00:00''"
       and phone = "''+1234567890''" and now = "''2024-05-02T09:30:00+00:00''"]
  by (simp add: ledger_eval)

subsection \<open>Adding a lead\<close>

text \<open>
  Claim C9, as amended. When no stored lead has the comparison key of the phone, \<open>add_lead\<close>
  returns the \<open>OK\<close> message and saves the loaded list with one lead appended, so that the
  next load returns that list. The new lead has the arguments as given, the comparison key
  as \<open>phone_normalized\<close>, status \<open>contacted\<close>, empty notes, the first clock reading as
  \<open>date_added\<close> and the second clock reading as \<open>date_updated\<close>; the two dates are equal
  exactly when the two readings are.
\<close>

theorem add_lead_appends_contacted:
  assumes "load db = Inr leads"
    and "\<forall>l\<in>set leads. normalize_phone (lead_phone l) \<noteq> normalize_phone phone"
  shows "add_lead db phone name source message now1 now2 =
           (Inr (OK_Added phone name source),
            Holds (leads @ [\<lparr>lead_phone = phone, lead_phone_normalized = normalize_phone phone,
              lead_name = name, lead_source = source, lead_message_type = message,
              lead_status = ''contacted'', lead_date_added = now1, lead_date_updated = now2,
              lead_notes = ''''\<rparr>]))
         \<and> (\<exists>new. load (snd (add_lead db phone name source message now1 now2))
                     = Inr (leads @ [new])
               \<and> lead_status new = ''contacted''
               \<and> lead_date_added new = now1 \<and> lead_date_updated new = now2
               \<and> (lead_date_added new = lead_date_updated new \<longleftrightarrow> now1 = now2))"
proof -
  have a: "add_lead db phone name source message now1 now2 =
           (Inr (OK_Added phone name source),
            Holds (leads @ [\<lparr>lead_phone = phone, lead_phone_normalized = normalize_phone phone,
              lead_name = name, lead_source = source, lead_message_type = message,
              lead_status = ''contacted'', lead_date_added = now1, lead_date_updated = now2,
              lead_notes = ''''\<rparr>]))"
    by (rule add_lead_no_match) (use assms in \<open>simp_all add: matches_def\<close>)
  show ?thesis unfolding a by simp
qed

text \<open>The first step of the self-test, with two clock readings a microsecond apart.\<close>

theorem add_lead_appends_contacted_witness:
  "load Missing = Inr []
   \<and> add_lead Missing ''+1234567890'' ''Test Biz'' ''reddit'' ''intro''
        ''2024-05-01T12:00:00.000001+00:00'' ''2024-05-01T12:00:00.000002+00:00''
       = (Inr (OK_Added ''+1234567890'' ''Test Biz'' ''reddit''),
          Holds [self_test_lead ''2024-05-01T12:00:00.000001+00:00''
                                ''2024-05-01T12:00:00.000002+00:00''])"
  using add_lead_appends_contacted
    [where db = Missing and leads = "[]" and phone = "''+1234567890''"
       and name = "''Test Biz''" and source = "''reddit''" and message = "''intro''"
       and ?now1.0 = "''2024-05-01T12:00:00.000001+00:00''"
       and ?now2.0 = "''2024-05-01T12:00:00.000002+00:00''"]
  by (simp add: ledger_eval)

text \<open>
  Claim C9, as stated, says that \<open>date_added\<close> equals \<open>date_updated\<close> in the new lead. The
  source reads the clock once for each field, and when the second reading is a microsecond
  later than the first, the lead that is saved has two different dates.
\<close>

theorem add_lead_dates_differ:
  "add_lead Missing ''+1234567890'' ''Test Biz'' ''reddit'' ''intro''
        ''2024-05-01T12:00:00.000001+00:00'' ''2024-05-01T12:00:00.000002+00:00''
     = (Inr (OK_Added ''+1234567890'' ''Test Biz'' ''reddit''),
        Holds [\<lparr>lead_phone = ''+1234567890'', lead_phone_normalized = ''+1234567890'',
                lead_name = ''Test Biz'', lead_source = ''reddit'',
                lead_message_type = ''intro'', lead_status = ''contacted'',
                lead_date_added = ''2024-05-01T12:00:00.000001+00:00'',
                lead_date_updated = ''2024-05-01T12:00:00.000002+00:00'',
                lead_notes = ''''\<rparr>])
   \<and> ''2024-05-01T12:00:00.000001+00:00'' \<noteq> ''2024-05-01T12:00:00.000002+00:00''"
  by (simp add: ledger_eval)

section \<open>Properties of the dispatch client\<close>

subsection \<open>The two checks and the path behind them\<close>

lemmas dispatch_eval =
  execute_def await_confirmation_def wait_for_def json_loads_def handler_def
  tool_normalize_phone_def phone_to_jid_def re_digit_def valid_request_def decimal_digit_def
  Let_def

lemma filter_re_digit: "filter re_digit phone = filter decimal_digit phone"
  by (rule filter_cong) (simp_all add: re_digit_decimal)

lemma handler_range:
  "handler self e \<noteq> Error_required" "handler self e \<noteq> Error_invalid_phone p"
  "handler self e \<noteq> Warning_no_confirmation" "handler self e \<noteq> OK_sent p j"
  "handler self e \<noteq> OK_dispatched p j" "handler self e \<noteq> Error_from_bridge r"
  by (simp_all add: handler_def)

lemma await_confirmation_range:
  "await_confirmation self env phone jid \<noteq> Error_required"
  "await_confirmation self env phone jid \<noteq> Error_invalid_phone p"
  by (auto simp: await_confirmation_def handler_range split: sum.splits option.splits)

lemma execute_invalid:
  assumes "\<not> valid_request phone message"
  shows "execute self env phone message
           = (if phone = [] \<or> message = [] then Error_required else Error_invalid_phone phone, [])"
  using assms
  by (auto simp: execute_def valid_request_def tool_normalize_phone_def filter_re_digit Let_def)

lemma execute_valid:
  assumes "valid_request phone message"
  shows "execute self env phone message =
     (if \<not> websockets_installed env then (Error_websockets_required, [])
      else case connect_result env of
             Some e \<Rightarrow> (handler self e, [Connect (bridge_url self)])
           | None \<Rightarrow>
              (case send_result env of
                 Some e \<Rightarrow> handler self e
               | None \<Rightarrow> await_confirmation self env phone (phone_to_jid phone),
               [Connect (bridge_url self),
                Send (JObj [(''type'', JStr ''send''),
                            (''to'', JStr (filter decimal_digit phone @ ''@s.whatsapp.net'')),
                            (''text'', JStr message)])]))"
  using assms
  by (auto simp: execute_def valid_request_def tool_normalize_phone_def filter_re_digit Let_def
      phone_to_jid_def split: option.splits)

lemma execute_rejects_iff:
  "(fst (execute self env phone message) = Error_required
      \<or> fst (execute self env phone message) = Error_invalid_phone phone)
     \<longleftrightarrow> \<not> valid_request phone message"
proof (cases "valid_request phone message")
  case True
  then show ?thesis
    by (auto simp: execute_valid handler_range await_confirmation_range split: option.splits)
next
  case False
  then show ?thesis
    by (auto simp: execute_invalid)
qed

lemma not_valid_request:
  "\<not> valid_request phone message \<longleftrightarrow>
     phone = [] \<or> message = []
     \<or> length (filter decimal_digit phone) < 7 \<or> 15 < length (filter decimal_digit phone)"
  by (auto simp: valid_request_def)

subsection \<open>Validation\<close>

text \<open>
  Claim C3. \<open>execute\<close> returns one of its two validation messages if and only if the phone
  is empty, or the message is empty, or the number of decimal digits in the phone is below
  7 or above 15; and when it does, it has neither connected nor sent anything.
\<close>

theorem execute_validates_first:
  "((fst (execute self env phone message) = Error_required
      \<or> fst (execute self env phone message) = Error_invalid_phone phone)
     \<longleftrightarrow> (phone = [] \<or> message = []
          \<or> length (filter decimal_digit phone) < 7 \<or> 15 < length (filter decimal_digit phone)))
   \<and> (phone = [] \<or> message = []
          \<or> length (filter decimal_digit phone) < 7 \<or> 15 < length (filter decimal_digit phone)
        \<longrightarrow> snd (execute self env phone message) = []
            \<and> spec_result (fst (execute self env phone message)) = ValidationError)"
proof (intro conjI impI)
  show "(fst (execute self env phone message) = Error_required
      \<or> fst (execute self env phone message) = Error_invalid_phone phone)
     \<longleftrightarrow> (phone = [] \<or> message = []
          \<or> length (filter decimal_digit phone) < 7 \<or> 15 < length (filter decimal_digit phone))"
    unfolding execute_rejects_iff not_valid_request ..
next
  assume "phone = [] \<or> message = []
          \<or> length (filter decimal_digit phone) < 7 \<or> 15 < length (filter decimal_digit phone)"
  then have nv: "\<not> valid_request phone message" by (simp only: not_valid_request)
  show "snd (execute self env phone message) = []" by (simp add: execute_invalid[OF nv])
  show "spec_result (fst (execute self env phone message)) = ValidationError"
    by (simp add: execute_invalid[OF nv])
qed

text \<open>
  The boundaries: six digits and sixteen digits are rejected before any connection, seven
  and fifteen digits pass the checks (here the bridge refuses the connection).
\<close>

theorem execute_validates_first_witness:
  "length (filter decimal_digit ''+123456'') < 7
   \<and> execute \<lparr>bridge_url = ''ws://localhost:3001''\<rparr>
        \<lparr>websockets_installed = True, connect_result = Some ConnectionRefusedError,
         send_result = None, recv_result = No_reply\<rparr> ''+123456'' ''hello''
       = (Error_invalid_phone ''+123456'', [])
   \<and> 15 < length (filter decimal_digit ''+1234567890123456'')
   \<and> execute \<lparr>bridge_url = ''ws://localhost:3001''\<rparr>
        \<lparr>websockets_installed = True, connect_result = Some ConnectionRefusedError,
         send_result = None, recv_result = No_reply\<rparr> ''+1234567890123456'' ''hello''
       = (Error_invalid_phone ''+1234567890123456'', [])
   \<and> execute \<lparr>bridge_url = ''ws://localhost:3001''\<rparr>
        \<lparr>websockets_installed = True, connect_result = Some ConnectionRefusedError,
         send_result = None, recv_result = No_reply\<rparr> ''+1234567'' ''hello''
       = (Error_cannot_connect ''ws://localhost:3001'', [Connect ''ws://localhost:3001''])
   \<and> execute \<lparr>bridge_url = ''ws://localhost:3001''\<rparr>
        \<lparr>websockets_installed = True, connect_result = Some ConnectionRefusedError,
         send_result = None, recv_result = No_reply\<rparr> ''+123456789012345'' ''hello''
       = (Error_cannot_connect ''ws://localhost:3001'', [Connect ''ws://localhost:3001''])"
  using
    execute_validates_first
      [where self = "\<lparr>bridge_url = ''ws://localhost:3001''\<rparr>"
         and env = "\<lparr>websockets_installed = True, connect_result = Some ConnectionRefusedError,
                     send_result = None, recv_result = No_reply\<rparr>"
         and phone = "''+123456''" and message = "''hello''"]
    execute_validates_first
      [where self = "\<lparr>bridge_url = ''ws://localhost:3001''\<rparr>"
         and env = "\<lparr>websockets_installed = True, connect_result = Some ConnectionRefusedError,
                     send_result = None, recv_result = No_reply\<rparr>"
         and phone = "''+1234567890123456''" and message = "''hello''"]
  by (simp add: dispatch_eval)

subsection \<open>The request that is sent\<close>

text \<open>
  Claim C8. For a request that passes the checks, what \<open>execute\<close> hands to the connection is
  one JSON object or nothing: when the transport is installed and the connection is
  established, exactly the object with \<open>type\<close> \<open>send\<close>, with \<open>to\<close> the decimal digits of
  the phone followed by \<open>@s.whatsapp.net\<close>, and with \<open>text\<close> the message as given; otherwise
  nothing is sent.
\<close>

theorem execute_sends_one_request:
  assumes "valid_request phone message"
  shows "transmitted (snd (execute self env phone message)) =
     (if websockets_installed env \<and> connect_result env = None
      then [JObj [(''type'', JStr ''send''),
                  (''to'', JStr (filter decimal_digit phone @ ''@s.whatsapp.net'')),
                  (''text'', JStr message)]]
      else [])"
  by (simp add: execute_valid[OF assms] split: option.splits)

theorem execute_sends_one_request_witness:
  "valid_request ''+1 (234) 567-890'' ''Hello there''
   \<and> transmitted (snd (execute \<lparr>bridge_url = ''ws://localhost:3001''\<rparr>
        \<lparr>websockets_installed = True, connect_result = None, send_result = None,
         recv_result = Reply 2 (Json (JObj [(''type'', JStr ''sent'')]))\<rparr>
        ''+1 (234) 567-890'' ''Hello there''))
       = [JObj [(''type'', JStr ''send''), (''to'', JStr ''1234567890@s.whatsapp.net''),
                (''text'', JStr ''Hello there'')]]"
  using execute_sends_one_request
    [where phone = "''+1 (234) 567-890''" and message = "''Hello there''"
       and self = "\<lparr>bridge_url = ''ws://localhost:3001''\<rparr>"
       and env = "\<lparr>websockets_installed = True, connect_result = None, send_result = None,
                   recv_result = Reply 2 (Json (JObj [(''type'', JStr ''sent'')]))\<rparr>"]
  by (simp add: dispatch_eval)

subsection \<open>Waiting for the confirmation\<close>

lemma await_confirmation_timeout:
  assumes "recv_result env = No_reply \<or> (\<exists>d raw. recv_result env = Reply d raw \<and> 15 \<le> d)"
  shows "await_confirmation self env phone jid = Warning_no_confirmation"
  using assms by (auto simp: await_confirmation_def wait_for_def)

lemma await_confirmation_reply:
  assumes "recv_result env = Reply d (Json (JObj kvs))" and "d < 15"
  shows "await_confirmation self env phone jid =
     (if map_of kvs ''type'' = Some (JStr ''sent'') then OK_sent phone jid
      else if map_of kvs ''type'' = Some (JStr ''error'')
      then Error_from_bridge (case map_of kvs ''error'' of None \<Rightarrow> JStr ''unknown'' | Some v \<Rightarrow> v)
      else OK_dispatched phone jid)"
  using assms by (simp add: await_confirmation_def wait_for_def json_loads_def)

lemma await_confirmation_bridge_error:
  assumes "await_confirmation self env phone jid = Error_from_bridge r"
  shows "\<exists>d kvs. recv_result env = Reply d (Json (JObj kvs)) \<and> d < 15
           \<and> map_of kvs ''type'' = Some (JStr ''error'')
           \<and> r = (case map_of kvs ''error'' of None \<Rightarrow> JStr ''unknown'' | Some v \<Rightarrow> v)"
proof (cases "recv_result env")
  case No_reply
  with assms show ?thesis by (simp add: await_confirmation_def wait_for_def)
next
  case (Recv_raises e)
  with assms show ?thesis
    by (simp add: await_confirmation_def wait_for_def handler_range split: if_splits)
next
  case (Reply d raw)
  show ?thesis
  proof (cases "d < 15")
    case False
    with Reply assms show ?thesis by (simp add: await_confirmation_def wait_for_def)
  next
    case True
    show ?thesis
    proof (cases raw)
      case Not_json_text
      with Reply True assms show ?thesis
        by (simp add: await_confirmation_def wait_for_def json_loads_def handler_range)
    next
      case (Json v)
      show ?thesis
      proof (cases v)
        case (JObj kvs)
        from await_confirmation_reply[of env d kvs self phone jid] Reply Json JObj True assms
        show ?thesis by (auto split: if_splits)
      qed (use Reply True Json assms in
            \<open>simp_all add: await_confirmation_def wait_for_def json_loads_def handler_range\<close>)
    qed
  qed
qed

lemma execute_bridge_error:
  assumes "fst (execute self env phone message) = Error_from_bridge r"
  shows "\<exists>d kvs. recv_result env = Reply d (Json (JObj kvs)) \<and> d < 15
           \<and> map_of kvs ''type'' = Some (JStr ''error'')
           \<and> r = (case map_of kvs ''error'' of None \<Rightarrow> JStr ''unknown'' | Some v \<Rightarrow> v)"
proof (cases "valid_request phone message")
  case False
  with assms show ?thesis by (simp add: execute_invalid split: if_splits)
next
  case True
  with assms have "await_confirmation self env phone (phone_to_jid phone) = Error_from_bridge r"
    by (auto simp: execute_valid handler_range split: if_splits option.splits)
  then show ?thesis by (rule await_confirmation_bridge_error)
qed

text \<open>
  Claim C5. Let a request pass the checks, the transport be installed, the connection be
  established and the request be sent, so that \<open>execute\<close> waits for the confirmation. If no
  message arrives, or none before 15 seconds have passed, \<open>execute\<close> returns the message of
  the unconfirmed timeout. That message starts with \<open>Warning\<close>, not with \<open>Error\<close>, and its
  state is neither \<open>Confirmed\<close> nor \<open>BridgeError\<close>.
\<close>

theorem execute_times_out_with_warning:
  assumes "valid_request phone message"
    and "websockets_installed env" and "connect_result env = None" and "send_result env = None"
    and "recv_result env = No_reply \<or> (\<exists>d raw. recv_result env = Reply d raw \<and> 15 \<le> d)"
  shows "fst (execute self env phone message) = Warning_no_confirmation
         \<and> message_tag (fst (execute self env phone message)) = Warning
         \<and> message_tag (fst (execute self env phone message)) \<noteq> Error
         \<and> spec_result (fst (execute self env phone message)) = Unconfirmed_Timeout
         \<and> spec_result (fst (execute self env phone message)) \<noteq> Confirmed
         \<and> spec_result (fst (execute self env phone message)) \<noteq> BridgeError"
  using assms(2-4) await_confirmation_timeout[OF assms(5)]
  by (simp add: execute_valid[OF assms(1)])

text \<open>The bridge accepts the connection and the request, and answers after 20 seconds.\<close>

theorem execute_times_out_with_warning_witness:
  "valid_request ''+1234567890'' ''Hello there''
   \<and> (recv_result \<lparr>websockets_installed = True, connect_result = None, send_result = None,
         recv_result = Reply 20 (Json (JObj [(''type'', JStr ''sent'')]))\<rparr> = No_reply
       \<or> (\<exists>d raw. recv_result \<lparr>websockets_installed = True, connect_result = None,
              send_result = None,
              recv_result = Reply 20 (Json (JObj [(''type'', JStr ''sent'')]))\<rparr> = Reply d raw
            \<and> 15 \<le> d))
   \<and> execute \<lparr>bridge_url = ''ws://localhost:3001''\<rparr>
        \<lparr>websockets_installed = True, connect_result = None, send_result = None,
         recv_result = Reply 20 (Json (JObj [(''type'', JStr ''sent'')]))\<rparr>
        ''+1234567890'' ''Hello there''
       = (Warning_no_confirmation,
          [Connect ''ws://localhost:3001'',
           Send (JObj [(''type'', JStr ''send''), (''to'', JStr ''1234567890@s.whatsapp.net''),
                       (''text'', JStr ''Hello there'')])])"
  using execute_times_out_with_warning
    [where phone = "''+1234567890''" and message = "''Hello there''"
       and self = "\<lparr>bridge_url = ''ws://localhost:3001''\<rparr>"
       and env = "\<lparr>websockets_installed = True, connect_result = None, send_result = None,
                   recv_result = Reply 20 (Json (JObj [(''type'', JStr ''sent'')]))\<rparr>"]
  by (simp add: dispatch_eval)

text \<open>
  Claim C6. Let \<open>execute\<close> wait for the confirmation as above, and let a reply that is a JSON
  object arrive before the timeout. If its \<open>type\<close> is neither \<open>sent\<close> nor \<open>error\<close> (or is
  absent), \<open>execute\<close> returns the \<open>OK\<close> message "dispatched", whose state is \<open>Confirmed\<close>. If
  its \<open>type\<close> is \<open>error\<close>, \<open>execute\<close> returns the bridge error with the value of the field
  \<open>error\<close>, or with \<open>unknown\<close> when the reply has no such field. And whatever the world does,
  \<open>execute\<close> returns a bridge error only for a reply that arrived in time with \<open>type\<close>
  \<open>error\<close>.
\<close>

theorem execute_classifies_reply:
  "(valid_request phone message \<and> websockets_installed env
      \<and> connect_result env = None \<and> send_result env = None
      \<and> recv_result env = Reply d (Json (JObj kvs)) \<and> d < 15
    \<longrightarrow> (map_of kvs ''type'' \<noteq> Some (JStr ''sent'') \<and> map_of kvs ''type'' \<noteq> Some (JStr ''error'')
           \<longrightarrow> fst (execute self env phone message) = OK_dispatched phone (phone_to_jid phone)
               \<and> message_tag (fst (execute self env phone message)) = OK
               \<and> spec_result (fst (execute self env phone message)) = Confirmed)
        \<and> (map_of kvs ''type'' = Some (JStr ''error'')
           \<longrightarrow> fst (execute self env phone message)
                 = Error_from_bridge
                     (case map_of kvs ''error'' of None \<Rightarrow> JStr ''unknown'' | Some v \<Rightarrow> v)))
   \<and> (spec_result (fst (execute self env phone message)) = BridgeError
    \<longrightarrow> (\<exists>d' kvs'. recv_result env = Reply d' (Json (JObj kvs')) \<and> d' < 15
            \<and> map_of kvs' ''type'' = Some (JStr ''error'')))"
proof (intro conjI impI)
  assume h: "valid_request phone message \<and> websockets_installed env
      \<and> connect_result env = None \<and> send_result env = None
      \<and> recv_result env = Reply d (Json (JObj kvs)) \<and> d < 15"
  then have e: "fst (execute self env phone message)
                  = await_confirmation self env phone (phone_to_jid phone)"
    by (simp add: execute_valid)
  from h have r: "recv_result env = Reply d (Json (JObj kvs))" "d < 15" by simp_all
  note a = await_confirmation_reply[OF r, of self phone "phone_to_jid phone"]
  {
    assume "map_of kvs ''type'' \<noteq> Some (JStr ''sent'') \<and> map_of kvs ''type'' \<noteq> Some (JStr ''error'')"
    then show "fst (execute self env phone message) = OK_dispatched phone (phone_to_jid phone)"
      "message_tag (fst (execute self env phone message)) = OK"
      "spec_result (fst (execute self env phone message)) = Confirmed"
      by (simp_all add: e a)
  }
  {
    assume "map_of kvs ''type'' = Some (JStr ''error'')"
    then show "fst (execute self env phone message)
                 = Error_from_bridge
                     (case map_of kvs ''error'' of None \<Rightarrow> JStr ''unknown'' | Some v \<Rightarrow> v)"
      by (simp add: e a)
  }
next
  assume "spec_result (fst (execute self env phone message)) = BridgeError"
  then obtain r where "fst (execute self env phone message) = Error_from_bridge r"
    by (cases "fst (execute self env phone message)") simp_all
  from execute_bridge_error[OF this]
  show "\<exists>d' kvs'. recv_result env = Reply d' (Json (JObj kvs')) \<and> d' < 15
            \<and> map_of kvs' ''type'' = Some (JStr ''error'')"
    by blast
qed

text \<open>
  Two replies after 2 seconds: a status notification, and an error without a reason.
\<close>

theorem execute_classifies_reply_witness:
  "valid_request ''+1234567890'' ''Hello there''
   \<and> (2 :: real) < 15
   \<and> map_of [(''type'', JStr ''status''), (''status'', JStr ''connected'')] ''type''
       \<noteq> Some (JStr ''sent'')
   \<and> map_of [(''type'', JStr ''status''), (''status'', JStr ''connected'')] ''type''
       \<noteq> Some (JStr ''error'')
   \<and> fst (execute \<lparr>bridge_url = ''ws://localhost:3001''\<rparr>
        \<lparr>websockets_installed = True, connect_result = None, send_result = None,
         recv_result = Reply 2 (Json (JObj [(''type'', JStr ''status''),
                                            (''status'', JStr ''connected'')]))\<rparr>
        ''+1234567890'' ''Hello there'')
       = OK_dispatched ''+1234567890'' ''1234567890@s.whatsapp.net''
   \<and> map_of [(''type'', JStr ''error'')] ''type'' = Some (JStr ''error'')
   \<and> fst (execute \<lparr>bridge_url = ''ws://localhost:3001''\<rparr>
        \<lparr>websockets_installed = True, connect_result = None, send_result = None,
         recv_result = Reply 2 (Json (JObj [(''type'', JStr ''error'')]))\<rparr>
        ''+1234567890'' ''Hello there'')
       = Error_from_bridge (JStr ''unknown'')
   \<and> spec_result (fst (execute \<lparr>bridge_url = ''ws://localhost:3001''\<rparr>
        \<lparr>websockets_installed = True, connect_result = None, send_result = None,
         recv_result = Reply 2 (Json (JObj [(''type'', JStr ''error'')]))\<rparr>
        ''+1234567890'' ''Hello there'')) = BridgeError"
  using
    execute_classifies_reply
      [where phone = "''+1234567890''" and message = "''Hello there''"
         and self = "\<lparr>bridge_url = ''ws://localhost:3001''\<rparr>"
         and env = "\<lparr>websockets_installed = True, connect_result = None, send_result = None,
                     recv_result = Reply 2 (Json (JObj [(''type'', JStr ''status''),
                                                        (''status'', JStr ''connected'')]))\<rparr>"
         and d = 2 and kvs = "[(''type'', JStr ''status''), (''status'', JStr ''connected'')]"]
    execute_classifies_reply
      [where phone = "''+1234567890''" and message = "''Hello there''"
         and self = "\<lparr>bridge_url = ''ws://localhost:3001''\<rparr>"
         and env = "\<lparr>websockets_installed = True, connect_result = None, send_result = None,
                     recv_result = Reply 2 (Json (JObj [(''type'', JStr ''error'')]))\<rparr>"
         and d = 2 and kvs = "[(''type'', JStr ''error'')]"]
  by (simp add: dispatch_eval)

end
